theory Spec2Isabelle
  imports Complex_Main
begin

section \<open>Strings, numbers and dates of the JavaScript runtime\<close>

text \<open>
  The statement-ingestion pipeline of the wallet backend is embedded function by function.
  Strings are lists of 8-bit characters read as Latin-1 code points; a JavaScript number is
  an exact rational, or one of NaN and the two infinities (rounding of IEEE doubles is not
  modelled); a \<open>Date\<close> is its time value, the milliseconds since the epoch.
\<close>

definition isWhiteSpace :: "char \<Rightarrow> bool" where
  \<comment> \<open>what \<open>String.prototype.trim\<close>, \<open>\\s\<close> and \<open>parseFloat\<close> skip, below code point 256\<close>
  "isWhiteSpace c = (of_char c \<in> set [9, 10, 11, 12, 13, 32, 160 :: nat])"

definition isDigit :: "char \<Rightarrow> bool" where
  "isDigit c = (48 \<le> (of_char c :: nat) \<and> (of_char c :: nat) \<le> 57)"

definition digitVal :: "char \<Rightarrow> int" where
  "digitVal c = of_char c - 48"

definition trim :: "string \<Rightarrow> string" where
  "trim s = rev (dropWhile isWhiteSpace (rev (dropWhile isWhiteSpace s)))"

definition toLowerChar :: "char \<Rightarrow> char" where
  "toLowerChar c =
     (let n = of_char c :: nat
      in if (65 \<le> n \<and> n \<le> 90) \<or> (192 \<le> n \<and> n \<le> 222 \<and> (n < 215 \<or> 215 < n))
         then char_of (n + 32) else c)"

definition toLowerCase :: "string \<Rightarrow> string" where
  "toLowerCase s = map toLowerChar s"

fun isPrefixOf :: "string \<Rightarrow> string \<Rightarrow> bool" where
  "isPrefixOf [] ys = True"
| "isPrefixOf (x # xs) [] = False"
| "isPrefixOf (x # xs) (y # ys) = (x = y \<and> isPrefixOf xs ys)"

fun includesStr :: "string \<Rightarrow> string \<Rightarrow> bool" where
  \<comment> \<open>\<open>s.includes(k)\<close>\<close>
  "includesStr [] k = (k = [])"
| "includesStr (c # cs) k = (isPrefixOf k (c # cs) \<or> includesStr cs k)"

fun splitOn :: "char \<Rightarrow> string \<Rightarrow> string list" where
  \<comment> \<open>\<open>s.split(sep)\<close> for a one-character separator: never empty, \<open>''''\<close> gives one empty piece\<close>
  "splitOn sep [] = [[]]"
| "splitOn sep (c # cs) =
     (case splitOn sep cs of
        [] \<Rightarrow> (if c = sep then [[], []] else [[c]])
      | p # ps \<Rightarrow> (if c = sep then [] # p # ps else (c # p) # ps))"

fun showNat :: "nat \<Rightarrow> string" where
  "showNat n = (if n < 10 then [char_of (48 + n)] else showNat (n div 10) @ [char_of (48 + n mod 10)])"

declare showNat.simps [simp del]

definition digitsVal :: "string \<Rightarrow> int" where
  "digitsVal ds = foldl (\<lambda>acc c. 10 * acc + digitVal c) 0 ds"

datatype number = NaN | PosInfinity | NegInfinity | Finite rat

definition isNaN :: "number \<Rightarrow> bool" where
  "isNaN x = (case x of NaN \<Rightarrow> True | _ \<Rightarrow> False)"

definition pow10 :: "int \<Rightarrow> rat" where
  "pow10 e = (if 0 \<le> e then 10 ^ nat e else 1 / 10 ^ nat (- e))"

definition exponentPart :: "string \<Rightarrow> int" where
  \<comment> \<open>the value of an \<open>e\<close>/\<open>E\<close> exponent that follows the mantissa, 0 when there is none\<close>
  "exponentPart r =
     (case r of
        [] \<Rightarrow> 0
      | c # r1 \<Rightarrow>
          if c = CHR ''e'' \<or> c = CHR ''E'' then
            (case r1 of
               [] \<Rightarrow> 0
             | s # r2 \<Rightarrow>
                 if s = CHR ''-'' then
                   (if takeWhile isDigit r2 = [] then 0 else - digitsVal (takeWhile isDigit r2))
                 else if s = CHR ''+'' then digitsVal (takeWhile isDigit r2)
                 else digitsVal (takeWhile isDigit r1))
          else 0)"

definition parseFloat :: "string \<Rightarrow> number" where
  \<comment> \<open>the global \<open>parseFloat\<close>: the longest prefix, after white space, that is a decimal literal\<close>
  "parseFloat s =
     (let s1 = dropWhile isWhiteSpace s;
          neg = (case s1 of [] \<Rightarrow> False | c # _ \<Rightarrow> c = CHR ''-'');
          s2 = (case s1 of [] \<Rightarrow> [] | c # r \<Rightarrow> if c = CHR ''-'' \<or> c = CHR ''+'' then r else s1)
      in if isPrefixOf ''Infinity'' s2 then (if neg then NegInfinity else PosInfinity)
         else
           let ip = takeWhile isDigit s2;
               r1 = dropWhile isDigit s2;
               hasDot = (case r1 of [] \<Rightarrow> False | c # _ \<Rightarrow> c = CHR ''.'');
               fp = (if hasDot then takeWhile isDigit (tl r1) else []);
               r2 = (if hasDot then dropWhile isDigit (tl r1) else r1)
           in if ip = [] \<and> fp = [] then NaN
              else
                let mant = of_int (digitsVal (ip @ fp)) / 10 ^ length fp * pow10 (exponentPart r2)
                in Finite (if neg then - mant else mant))"

definition parseInt :: "string \<Rightarrow> int option" where
  \<comment> \<open>the global \<open>parseInt\<close> in radix 10 (\<open>None\<close> is NaN); the callers pass captured
      groups of digits or of a month name, so the \<open>0x\<close> prefix never arises\<close>
  "parseInt s =
     (let s1 = dropWhile isWhiteSpace s;
          neg = (case s1 of [] \<Rightarrow> False | c # _ \<Rightarrow> c = CHR ''-'');
          s2 = (case s1 of [] \<Rightarrow> [] | c # r \<Rightarrow> if c = CHR ''-'' \<or> c = CHR ''+'' then r else s1);
          ds = takeWhile isDigit s2
      in if ds = [] then None
         else Some (if neg then - digitsVal ds else digitsVal ds))"

subsection \<open>Dates\<close>

type_synonym date = int

definition msPerDay :: int where
  "msPerDay = 86400000"

definition daysFromCivil :: "int \<Rightarrow> int \<Rightarrow> int \<Rightarrow> int" where
  \<comment> \<open>the day number (0 is 1970-01-01) of a proleptic Gregorian date, month in 1..12\<close>
  "daysFromCivil y m d =
     (let y1 = (if m \<le> 2 then y - 1 else y);
          era = y1 div 400;
          yoe = y1 - era * 400;
          doy = (153 * (if 2 < m then m - 3 else m + 9) + 2) div 5 + d - 1;
          doe = yoe * 365 + yoe div 4 - yoe div 100 + doy
      in era * 146097 + doe - 719468)"

definition civilFromDays :: "int \<Rightarrow> int \<times> int \<times> int" where
  \<comment> \<open>the inverse: year, month in 1..12 and day of month of a day number\<close>
  "civilFromDays z =
     (let z1 = z + 719468;
          era = z1 div 146097;
          doe = z1 - era * 146097;
          yoe = (doe - doe div 1460 + doe div 36524 - doe div 146096) div 365;
          doy = doe - (365 * yoe + yoe div 4 - yoe div 100);
          mp = (5 * doy + 2) div 153;
          d = doy - (153 * mp + 2) div 5 + 1;
          m = (if mp < 10 then mp + 3 else mp - 9)
      in (yoe + era * 400 + (if m \<le> 2 then 1 else 0), m, d))"

definition makeDay :: "int \<Rightarrow> int \<Rightarrow> int \<Rightarrow> int" where
  \<comment> \<open>ECMAScript MakeDay: a month index outside 0..11 carries into the year, a day of month
      outside the month carries into the following days\<close>
  "makeDay year month dt = daysFromCivil (year + month div 12) (month mod 12 + 1) 1 + dt - 1"

text \<open>
  What the pipeline takes from the runtime and from its libraries, as parameters:
  the SHA-256 hex digest of \<open>crypto\<close>, the conversion of a number to a string that a template
  literal applies, the engine's own parser behind \<open>new Date(string)\<close> (\<open>None\<close> is an
  invalid date), and the offset of local time from UTC in milliseconds, taken as constant.
\<close>

record runtime =
  sha256Hex :: "string \<Rightarrow> string"
  numberToString :: "rat \<Rightarrow> string"
  dateFromString :: "string \<Rightarrow> date option"
  localTZA :: int

definition newDate :: "runtime \<Rightarrow> int \<Rightarrow> int \<Rightarrow> int \<Rightarrow> date" where
  \<comment> \<open>\<open>new Date(year, month, day)\<close>: local midnight; a year in 0..99 means 1900 + year\<close>
  "newDate rt year month dt =
     makeDay (if 0 \<le> year \<and> year \<le> 99 then 1900 + year else year) month dt * msPerDay - localTZA rt"

definition pad :: "nat \<Rightarrow> string \<Rightarrow> string" where
  "pad w s = replicate (w - length s) CHR ''0'' @ s"

definition isoDate :: "date \<Rightarrow> string" where
  \<comment> \<open>\<open>d.toISOString().split('T')[0]\<close>: the UTC calendar date\<close>
  "isoDate t =
     (case civilFromDays (t div msPerDay) of
        (y, m, d) \<Rightarrow>
          (if 0 \<le> y \<and> y \<le> 9999 then pad 4 (showNat (nat y))
           else (if y < 0 then ''-'' else ''+'') @ pad 6 (showNat (nat \<bar>y\<bar>)))
          @ ''-'' @ pad 2 (showNat (nat m)) @ ''-'' @ pad 2 (showNat (nat d)))"

definition getLocalDate :: "runtime \<Rightarrow> date \<Rightarrow> int \<times> int \<times> int" where
  \<comment> \<open>\<open>getFullYear()\<close>, \<open>getMonth() + 1\<close> and \<open>getDate()\<close> of a date\<close>
  "getLocalDate rt t = civilFromDays ((t + localTZA rt) div msPerDay)"

section \<open>The fingerprint\<close>

definition generateDuplicateHash :: "runtime \<Rightarrow> date \<Rightarrow> rat \<Rightarrow> string \<Rightarrow> string \<Rightarrow> string" where
  "generateDuplicateHash rt dt amount description accountId =
     (let normalizedDescription = toLowerCase (trim description);
          dateStr = isoDate dt;
          hashString = dateStr @ ''|'' @ numberToString rt amount @ ''|'' @ normalizedDescription
                       @ ''|'' @ accountId
      in sha256Hex rt hashString)"

section \<open>Regular expressions\<close>

text \<open>
  The patterns of the parser repeat single characters only, so a repetition carries a
  character class. \<open>matchAt\<close> lists every way a pattern matches a prefix of the input, in
  the order in which a backtracking matcher tries them: the head is the match JavaScript
  reports. Capture groups are numbered as their opening parentheses are.
\<close>

datatype regex =
    Cls "char \<Rightarrow> bool"
  | Rep "char \<Rightarrow> bool" nat "nat option" bool
  | Cat regex regex
  | Alt regex regex
  | Grp nat regex

type_synonym captures = "(nat \<times> string) list"

fun matchAt :: "regex \<Rightarrow> string \<times> captures \<Rightarrow> (string \<times> captures) list" where
  "matchAt (Cls p) (s, caps) = (case s of [] \<Rightarrow> [] | c # cs \<Rightarrow> if p c then [(cs, caps)] else [])"
| "matchAt (Rep p lo hi greedy) (s, caps) =
     (let run = length (takeWhile p s);
          top = (case hi of None \<Rightarrow> run | Some h \<Rightarrow> min h run);
          counts = (if greedy then rev [lo..<Suc top] else [lo..<Suc top])
      in map (\<lambda>k. (drop k s, caps)) counts)"
| "matchAt (Cat a b) st = concat (map (matchAt b) (matchAt a st))"
| "matchAt (Alt a b) st = matchAt a st @ matchAt b st"
| "matchAt (Grp n r) (s, caps) =
     map (\<lambda>(s', caps'). (s', (n, take (length s - length s') s) # caps')) (matchAt r (s, caps))"

fun regexMatch :: "regex \<Rightarrow> string \<Rightarrow> captures option" where
  \<comment> \<open>\<open>str.match(re)\<close> without the g flag: the leftmost match, group 0 the matched text\<close>
  "regexMatch r [] =
     (case matchAt r ([], []) of [] \<Rightarrow> None | (rest, caps) # _ \<Rightarrow> Some ((0, []) # caps))"
| "regexMatch r (c # cs) =
     (case matchAt r (c # cs, []) of
        [] \<Rightarrow> regexMatch r cs
      | (rest, caps) # _ \<Rightarrow> Some ((0, take (length (c # cs) - length rest) (c # cs)) # caps))"

definition grp :: "captures \<Rightarrow> nat \<Rightarrow> string" where
  \<comment> \<open>\<open>match[n]\<close>; a group that took no part reads as the empty string, falsy like undefined\<close>
  "grp m n = (case map_of m n of None \<Rightarrow> [] | Some g \<Rightarrow> g)"

fun seqs :: "regex list \<Rightarrow> regex" where
  "seqs [] = Rep (\<lambda>c. False) 0 (Some 0) True"
| "seqs [r] = r"
| "seqs (r # rs) = Cat r (seqs rs)"

fun alts :: "regex list \<Rightarrow> regex" where
  "alts [] = Cls (\<lambda>c. False)"
| "alts [r] = r"
| "alts (r # rs) = Alt r (alts rs)"

definition litCI :: "string \<Rightarrow> regex" where
  \<comment> \<open>a literal under the i flag\<close>
  "litCI s = seqs (map (\<lambda>x. Cls (\<lambda>c. toLowerChar c = toLowerChar x)) s)"

definition digits :: "nat \<Rightarrow> nat \<Rightarrow> regex" where
  \<comment> \<open>\<open>\\d{lo,hi}\<close>\<close>
  "digits lo hi = Rep isDigit lo (Some hi) True"

definition dashSlash :: regex where
  \<comment> \<open>\<open>[-\\/]\<close>\<close>
  "dashSlash = Cls (\<lambda>c. c = CHR ''-'' \<or> c = CHR ''/'')"

definition dashSpace :: regex where
  \<comment> \<open>\<open>[-\\s]\<close>\<close>
  "dashSpace = Cls (\<lambda>c. c = CHR ''-'' \<or> isWhiteSpace c)"

definition spaces1 :: regex where
  \<comment> \<open>\<open>\\s+\<close>\<close>
  "spaces1 = Rep isWhiteSpace 1 None True"

definition isLineTerminator :: "char \<Rightarrow> bool" where
  "isLineTerminator c = (c = CHR 0x0A \<or> c = CHR 0x0D)"

definition anyChar :: "char \<Rightarrow> bool" where
  \<comment> \<open>the dot\<close>
  "anyChar c = (if isLineTerminator c then False else True)"

definition monthName :: regex where
  \<comment> \<open>\<open>Jan|Feb|...|Dec\<close>\<close>
  "monthName = alts (map litCI [''Jan'', ''Feb'', ''Mar'', ''Apr'', ''May'', ''Jun'',
                                ''Jul'', ''Aug'', ''Sep'', ''Oct'', ''Nov'', ''Dec''])"

definition amountToken :: regex where
  \<comment> \<open>\<open>[+-]?\\d+\\.?\\d*\<close>\<close>
  "amountToken = seqs [Rep (\<lambda>c. c = CHR ''+'' \<or> c = CHR ''-'') 0 (Some 1) True,
                       Rep isDigit 1 None True,
                       Rep (\<lambda>c. c = CHR ''.'') 0 (Some 1) True,
                       Rep isDigit 0 None True]"

definition numericDateToken :: regex where
  \<comment> \<open>\<open>\\d{1,2}[-\\/]\\d{1,2}[-\\/]\\d{2,4}\<close>\<close>
  "numericDateToken = seqs [digits 1 2, dashSlash, digits 1 2, dashSlash, digits 2 4]"

section \<open>The date normalizer\<close>

definition dateFormats :: "regex list" where
  "dateFormats =
     [seqs [Grp 1 (digits 1 2), dashSlash, Grp 2 (digits 1 2), dashSlash, Grp 3 (digits 2 4)],
      seqs [Grp 1 (digits 4 4), dashSlash, Grp 2 (digits 1 2), dashSlash, Grp 3 (digits 1 2)],
      seqs [Grp 1 (digits 1 2), dashSpace, Grp 2 monthName, dashSpace, Grp 3 (digits 2 4)]]"

definition months :: "string \<Rightarrow> int option" where
  "months = map_of [(''jan'', 0), (''feb'', 1), (''mar'', 2), (''apr'', 3), (''may'', 4),
                    (''jun'', 5), (''jul'', 6), (''aug'', 7), (''sep'', 8), (''oct'', 9),
                    (''nov'', 10), (''dec'', 11)]"

definition intOf :: "int option \<Rightarrow> int" where
  \<comment> \<open>the digits a pattern captured always parse; NaN cannot arise at the uses below\<close>
  "intOf x = (case x of None \<Rightarrow> 0 | Some i \<Rightarrow> i)"

definition dateOfMatch :: "runtime \<Rightarrow> captures \<Rightarrow> date" where
  \<comment> \<open>the body of the loop of \<open>parseDate\<close>, for a format that matched\<close>
  "dateOfMatch rt m =
     (if grp m 2 \<noteq> [] \<and> parseInt (grp m 2) = None then
        (let day = intOf (parseInt (grp m 1));
             month = intOf (months (take 3 (toLowerCase (grp m 2))));
             year = intOf (parseInt (grp m 3))
         in newDate rt (if year < 100 then year + 2000 else year) month day)
      else if includesStr (grp m 0) (grp m 3) \<and> 31 < intOf (parseInt (grp m 3)) then
        newDate rt (intOf (parseInt (grp m 1))) (intOf (parseInt (grp m 2)) - 1)
          (intOf (parseInt (grp m 3)))
      else
        (let day = intOf (parseInt (grp m 1));
             month = intOf (parseInt (grp m 2)) - 1;
             year = intOf (parseInt (grp m 3))
         in newDate rt (if year < 100 then year + 2000 else year) month day))"

fun firstMatch :: "regex list \<Rightarrow> string \<Rightarrow> captures option" where
  "firstMatch [] s = None"
| "firstMatch (f # fs) s = (case regexMatch f s of None \<Rightarrow> firstMatch fs s | Some m \<Rightarrow> Some m)"

definition parseDate :: "runtime \<Rightarrow> string \<Rightarrow> date option" where
  \<comment> \<open>\<open>None\<close> is the \<open>null\<close> of the source\<close>
  "parseDate rt dateStr =
     (if dateStr = [] then None
      else case firstMatch dateFormats dateStr of
             Some m \<Rightarrow> Some (dateOfMatch rt m)
           | None \<Rightarrow> dateFromString rt dateStr)"

section \<open>Transaction candidates and the two extractors\<close>

datatype txType = Income | Expense | Transfer

record parsedTransaction =
  pt_date :: date
  pt_amount :: rat
  pt_description :: string
  pt_type :: txType
  pt_referenceNumber :: "string option"
  pt_balance :: "number option"
  pt_isDuplicate :: bool
  pt_matchingTransactionId :: "nat option"
  pt_tempId :: "string option"

datatype parseError = CsvEmptyOrInvalid | FileUnreadable

definition parseErrorMessage :: "parseError \<Rightarrow> string" where
  "parseErrorMessage e =
     (case e of CsvEmptyOrInvalid \<Rightarrow> ''CSV file is empty or invalid''
              | FileUnreadable \<Rightarrow> ''ENOENT: no such file or directory'')"

fun findIndex :: "('a \<Rightarrow> bool) \<Rightarrow> 'a list \<Rightarrow> int" where
  "findIndex p [] = - 1"
| "findIndex p (x # xs) = (if p x then 0 else (let r = findIndex p xs in if r < 0 then - 1 else r + 1))"

fun findColumnLoop :: "string list \<Rightarrow> string list \<Rightarrow> int" where
  "findColumnLoop columns [] = - 1"
| "findColumnLoop columns (keyword # keywords) =
     (let index = findIndex (\<lambda>col. includesStr col (toLowerCase keyword)) columns
      in if index = - 1 then findColumnLoop columns keywords else index)"

definition findColumnIndex :: "string \<Rightarrow> string list \<Rightarrow> int" where
  "findColumnIndex header keywords =
     findColumnLoop (map (\<lambda>col. toLowerCase (trim col)) (splitOn CHR '','' header)) keywords"

fun parseCSVLineLoop :: "string \<Rightarrow> string list \<Rightarrow> string \<Rightarrow> bool \<Rightarrow> string list" where
  "parseCSVLineLoop [] result current inQuotes = result @ [trim current]"
| "parseCSVLineLoop (c # cs) result current inQuotes =
     (if c = CHR 0x22 then parseCSVLineLoop cs result current (if inQuotes then False else True)
      else if c = CHR '','' \<and> inQuotes = False then parseCSVLineLoop cs (result @ [trim current]) [] inQuotes
      else parseCSVLineLoop cs result (current @ [c]) inQuotes)"

definition parseCSVLine :: "string \<Rightarrow> string list" where
  "parseCSVLine line = parseCSVLineLoop line [] [] False"

definition column :: "string list \<Rightarrow> int \<Rightarrow> string option" where
  \<comment> \<open>\<open>columns[i]\<close>: undefined outside the array\<close>
  "column columns i = (if 0 \<le> i \<and> nat i < length columns then Some (columns ! nat i) else None)"

definition numericOnly :: "string \<Rightarrow> string" where
  \<comment> \<open>\<open>s.replace(/[^0-9.-]/g, '')\<close>\<close>
  "numericOnly s = filter (\<lambda>c. isDigit c \<or> c = CHR ''.'' \<or> c = CHR ''-'') s"

definition typeFromColumn :: "string \<Rightarrow> txType \<Rightarrow> txType" where
  \<comment> \<open>the override by a non-empty type cell\<close>
  "typeFromColumn typeStr bySign =
     (let typeLower = toLowerCase typeStr
      in if includesStr typeLower ''debit'' \<or> includesStr typeLower ''dr''
            \<or> includesStr typeLower ''withdraw'' then Expense
         else if includesStr typeLower ''credit'' \<or> includesStr typeLower ''cr''
            \<or> includesStr typeLower ''deposit'' then Income
         else bySign)"

definition csvRow ::
  "runtime \<Rightarrow> int \<Rightarrow> int \<Rightarrow> int \<Rightarrow> int \<Rightarrow> int \<Rightarrow> nat \<Rightarrow> string \<Rightarrow> parsedTransaction option" where
  \<comment> \<open>one turn of the loop of \<open>parseCSVStatement\<close>; \<open>None\<close> is a \<open>continue\<close>, also the one
      of the \<open>catch\<close> (a read of an undefined cell's method throws). The stripped amount
      holds digits, dots and minus signs only, so it never parses to an infinity.\<close>
  "csvRow rt dateCol amountCol descriptionCol typeCol balanceCol i rawLine =
     (let line = trim rawLine in
      if line = [] then None
      else
        let columns = parseCSVLine line in
        if length columns < 3 then None
        else
          let dateStr = (if 0 \<le> dateCol then column columns dateCol else column columns 0);
              amountStr = (if 0 \<le> amountCol then column columns amountCol else column columns 1);
              descStr = (if 0 \<le> descriptionCol then column columns descriptionCol else column columns 2);
              typeStr = (if 0 \<le> typeCol then column columns typeCol else Some []);
              balanceStr = (if 0 \<le> balanceCol then column columns balanceCol else Some [])
          in case (case dateStr of None \<Rightarrow> None | Some ds \<Rightarrow> parseDate rt ds) of
               None \<Rightarrow> None
             | Some dt \<Rightarrow>
                 (case amountStr of
                    None \<Rightarrow> None
                  | Some as \<Rightarrow>
                      (case parseFloat (numericOnly as) of
                         Finite amount \<Rightarrow>
                           if amount = 0 then None
                           else
                             (case descStr of
                                None \<Rightarrow> None
                              | Some ds \<Rightarrow>
                                  Some \<lparr>pt_date = dt,
                                        pt_amount = \<bar>amount\<bar>,
                                        pt_description = trim ds,
                                        pt_type =
                                          (case typeStr of
                                             None \<Rightarrow> (if 0 < amount then Income else Expense)
                                           | Some ts \<Rightarrow>
                                               if ts = [] then (if 0 < amount then Income else Expense)
                                               else typeFromColumn ts (if 0 < amount then Income else Expense)),
                                        pt_referenceNumber = None,
                                        pt_balance =
                                          (case balanceStr of
                                             None \<Rightarrow> None
                                           | Some bs \<Rightarrow> if bs = [] then None
                                                        else Some (parseFloat (numericOnly bs))),
                                        pt_isDuplicate = False,
                                        pt_matchingTransactionId = None,
                                        pt_tempId = Some (''temp_'' @ showNat i)\<rparr>)
                       | _ \<Rightarrow> None)))"

definition parseCSVStatement :: "runtime \<Rightarrow> string \<Rightarrow> parseError + parsedTransaction list" where
  \<comment> \<open>the argument is the content of the file that the source reads\<close>
  "parseCSVStatement rt fileContent =
     (let lines = splitOn CHR 0x0A (trim fileContent) in
      if length lines < 2 then Inl CsvEmptyOrInvalid
      else
        let headerRow = toLowerCase (lines ! 0);
            dateCol = findColumnIndex headerRow [''date'', ''transaction date'', ''transaction_date''];
            amountCol = findColumnIndex headerRow [''amount'', ''transaction amount'', ''transaction_amount''];
            descriptionCol = findColumnIndex headerRow [''description'', ''particulars'', ''narration'', ''details''];
            typeCol = findColumnIndex headerRow [''type'', ''transaction type'', ''debit/credit'', ''dr/cr''];
            balanceCol = findColumnIndex headerRow [''balance'', ''closing balance'', ''closing_balance''];
            dataStartIndex = (if dateCol = - 1 \<or> amountCol = - 1 \<or> descriptionCol = - 1 then 0 else 1)
        in Inr (List.map_filter
                  (\<lambda>i. csvRow rt dateCol amountCol descriptionCol typeCol balanceCol i (lines ! i))
                  [dataStartIndex..<length lines]))"

definition pdfPatterns :: "regex list" where
  "pdfPatterns =
     [seqs [Grp 1 numericDateToken, spaces1, Grp 2 amountToken, spaces1, Grp 3 (Rep anyChar 1 None True)],
      seqs [Grp 1 (seqs [digits 1 2, dashSpace, Grp 2 monthName, dashSpace, digits 2 4]),
            spaces1, Grp 3 amountToken, spaces1, Grp 4 (Rep anyChar 1 None True)],
      seqs [Grp 1 (Rep anyChar 1 None False), spaces1, Grp 2 amountToken, spaces1, Grp 3 numericDateToken]]"

definition candidateOfMatch :: "runtime \<Rightarrow> captures \<Rightarrow> nat \<Rightarrow> parsedTransaction option" where
  \<comment> \<open>the body of the inner loop of \<open>parsePDFStatement\<close> for a pattern that matched;
      \<open>None\<close> when nothing is pushed. The amount group holds an optional sign, digits
      and a dot, or a month name: it never parses to an infinity.\<close>
  "candidateOfMatch rt m tempId =
     (let thirdIsDate = (grp m 3 \<noteq> [] \<and> isNaN (parseFloat (grp m 3)));
          dt = (if thirdIsDate then parseDate rt (grp m 3) else parseDate rt (grp m 1));
          amount = parseFloat (grp m 2);
          description = (if thirdIsDate then grp m 1
                         else if grp m 3 \<noteq> [] then grp m 3 else grp m 4)
      in case dt of
           None \<Rightarrow> None
         | Some d \<Rightarrow>
             (case amount of
                Finite a \<Rightarrow>
                  if a = 0 \<or> trim description = [] then None
                  else Some \<lparr>pt_date = d,
                             pt_amount = \<bar>a\<bar>,
                             pt_description = trim description,
                             pt_type = (if 0 < a then Income else Expense),
                             pt_referenceNumber = None,
                             pt_balance = None,
                             pt_isDuplicate = False,
                             pt_matchingTransactionId = None,
                             pt_tempId = Some (''temp_'' @ showNat tempId)\<rparr>
              | _ \<Rightarrow> None))"

fun tryPatterns :: "runtime \<Rightarrow> regex list \<Rightarrow> string \<Rightarrow> nat \<Rightarrow> parsedTransaction option" where
  "tryPatterns rt [] line tempId = None"
| "tryPatterns rt (pattern # patterns) line tempId =
     (case regexMatch pattern line of
        None \<Rightarrow> tryPatterns rt patterns line tempId
      | Some m \<Rightarrow>
          (case candidateOfMatch rt m tempId of
             None \<Rightarrow> tryPatterns rt patterns line tempId
           | Some c \<Rightarrow> Some c))"

fun pdfLines :: "runtime \<Rightarrow> string list \<Rightarrow> nat \<Rightarrow> parsedTransaction list" where
  "pdfLines rt [] tempId = []"
| "pdfLines rt (line # lines) tempId =
     (if trim line = [] then pdfLines rt lines tempId
      else case tryPatterns rt pdfPatterns (trim line) tempId of
             None \<Rightarrow> pdfLines rt lines tempId
           | Some c \<Rightarrow> c # pdfLines rt lines (Suc tempId))"

definition parsePDFStatement :: "runtime \<Rightarrow> string \<Rightarrow> parsedTransaction list" where
  \<comment> \<open>the argument is the text that \<open>pdf-parse\<close> extracts from the file\<close>
  "parsePDFStatement rt text = pdfLines rt (splitOn CHR 0x0A text) 0"

section \<open>The ledger\<close>

text \<open>
  A MongoDB collection is the list of its documents in insertion order; \<open>findOne\<close> returns
  the first document that satisfies the filter. A soft-deleted transaction stays in the
  collection with \<open>deletedAt\<close> set.
\<close>

datatype accountType = Bank | Cash

datatype txStatus = Pending | Completed | Cancelled

record transaction =
  tx_id :: nat
  tx_userId :: string
  tx_accountId :: string
  tx_accountType :: accountType
  tx_type :: txType
  tx_amount :: rat
  tx_currency :: string
  tx_description :: string
  tx_date :: date
  tx_status :: txStatus
  tx_referenceNumber :: "string option"
  tx_duplicateCheckHash :: string
  tx_deletedAt :: "date option"

record createTransactionData =
  ctd_userId :: string
  ctd_accountId :: string
  ctd_accountType :: accountType
  ctd_type :: txType
  ctd_amount :: rat
  ctd_currency :: string
  ctd_description :: string
  ctd_date :: date
  ctd_referenceNumber :: "string option"

definition findOneByHash :: "transaction list \<Rightarrow> string \<Rightarrow> string \<Rightarrow> transaction option" where
  \<comment> \<open>\<open>Transaction.findOne({ userId, duplicateCheckHash: hash })\<close>\<close>
  "findOneByHash ledger userId hash =
     find (\<lambda>t. tx_userId t = userId \<and> tx_duplicateCheckHash t = hash) ledger"

definition findOneActiveByHash :: "transaction list \<Rightarrow> string \<Rightarrow> string \<Rightarrow> transaction option" where
  \<comment> \<open>\<open>Transaction.findOne({ userId, duplicateCheckHash: hash, deletedAt: null })\<close>\<close>
  "findOneActiveByHash ledger userId hash =
     find (\<lambda>t. tx_userId t = userId \<and> tx_duplicateCheckHash t = hash \<and> tx_deletedAt t = None) ledger"

record duplicateQuery =
  dq_date :: date
  dq_amount :: rat
  dq_description :: string
  dq_accountId :: string

fun checkDuplicatesLoop ::
  "runtime \<Rightarrow> transaction list \<Rightarrow> string \<Rightarrow> duplicateQuery list
     \<Rightarrow> (string \<rightharpoonup> transaction option) \<Rightarrow> (string \<rightharpoonup> transaction option)" where
  "checkDuplicatesLoop rt ledger userId [] duplicateMap = duplicateMap"
| "checkDuplicatesLoop rt ledger userId (tx # txs) duplicateMap =
     (let hash = generateDuplicateHash rt (dq_date tx) (dq_amount tx) (dq_description tx) (dq_accountId tx);
          existing = findOneByHash ledger userId hash
      in checkDuplicatesLoop rt ledger userId txs (duplicateMap(hash \<mapsto> existing)))"

definition checkDuplicates ::
  "runtime \<Rightarrow> transaction list \<Rightarrow> string \<Rightarrow> duplicateQuery list \<Rightarrow> (string \<rightharpoonup> transaction option)" where
  \<comment> \<open>the \<open>Map\<close> from a hash to the transaction found, or to \<open>null\<close> (\<open>Some None\<close>)\<close>
  "checkDuplicates rt ledger userId transactions =
     checkDuplicatesLoop rt ledger userId transactions Map.empty"

definition detectDuplicates ::
  "runtime \<Rightarrow> transaction list \<Rightarrow> string \<Rightarrow> parsedTransaction list \<Rightarrow> string \<Rightarrow> parsedTransaction list" where
  "detectDuplicates rt ledger userId transactions accountId =
     (let transactionsWithHash =
            map (\<lambda>tx. \<lparr>dq_date = pt_date tx, dq_amount = pt_amount tx,
                         dq_description = pt_description tx, dq_accountId = accountId\<rparr>) transactions;
          duplicateMap = checkDuplicates rt ledger userId transactionsWithHash
      in map (\<lambda>tx.
                let hash = generateDuplicateHash rt (pt_date tx) (pt_amount tx) (pt_description tx) accountId;
                    existing = (case duplicateMap hash of None \<Rightarrow> None | Some e \<Rightarrow> e)
                in tx\<lparr>pt_isDuplicate := (case existing of None \<Rightarrow> False | Some _ \<Rightarrow> True),
                       pt_matchingTransactionId := map_option tx_id existing\<rparr>)
             transactions)"

definition saveNewTransaction ::
  "transaction list \<Rightarrow> createTransactionData \<Rightarrow> string \<Rightarrow> string + transaction" where
  \<comment> \<open>\<open>new Transaction({...data, duplicateCheckHash, status: 'completed'}).save()\<close>: the schema
      rejects an amount below 0 and an empty description or currency, and trims the
      description and the reference number (the currency is the account's, which the
      account schema already holds in upper case); the new \<open>_id\<close> is the next unused
      number; \<open>Inl\<close> is the message of the error thrown\<close>
  "saveNewTransaction ledger txData hash =
     (if ctd_amount txData < 0 \<or> trim (ctd_description txData) = [] \<or> ctd_currency txData = []
      then Inl ''Transaction validation failed''
      else Inr \<lparr>tx_id = length ledger,
                 tx_userId = ctd_userId txData,
                 tx_accountId = ctd_accountId txData,
                 tx_accountType = ctd_accountType txData,
                 tx_type = ctd_type txData,
                 tx_amount = ctd_amount txData,
                 tx_currency = ctd_currency txData,
                 tx_description = trim (ctd_description txData),
                 tx_date = ctd_date txData,
                 tx_status = Completed,
                 tx_referenceNumber = map_option trim (ctd_referenceNumber txData),
                 tx_duplicateCheckHash = hash,
                 tx_deletedAt = None\<rparr>)"


record bulkResult =
  created :: "transaction list"
  skipped :: nat
  duplicates :: nat

fun createTransactionsLoop ::
  "runtime \<Rightarrow> bool \<Rightarrow> createTransactionData list \<Rightarrow> bulkResult \<times> transaction list
     \<Rightarrow> bulkResult \<times> transaction list" where
  "createTransactionsLoop rt skipDuplicates [] (res, ledger) = (res, ledger)"
| "createTransactionsLoop rt skipDuplicates (txData # rest) (res, ledger) =
     (let hash = generateDuplicateHash rt (ctd_date txData) (ctd_amount txData)
                   (ctd_description txData) (ctd_accountId txData)
      in if skipDuplicates \<and> (case findOneActiveByHash ledger (ctd_userId txData) hash of
                                  None \<Rightarrow> False | Some existing \<Rightarrow> True)
         then createTransactionsLoop rt skipDuplicates rest (res\<lparr>duplicates := duplicates res + 1\<rparr>, ledger)
         else
           (case saveNewTransaction ledger txData hash of
              Inr saved \<Rightarrow>
                createTransactionsLoop rt skipDuplicates rest
                  (res\<lparr>created := created res @ [saved]\<rparr>, ledger @ [saved])
            | Inl message \<Rightarrow>
                if message = ''Duplicate transaction detected'' \<and> skipDuplicates
                then createTransactionsLoop rt skipDuplicates rest (res\<lparr>duplicates := duplicates res + 1\<rparr>, ledger)
                else createTransactionsLoop rt skipDuplicates rest (res\<lparr>skipped := skipped res + 1\<rparr>, ledger)))"

definition createTransactions ::
  "runtime \<Rightarrow> createTransactionData list \<Rightarrow> bool \<Rightarrow> transaction list \<Rightarrow> bulkResult \<times> transaction list" where
  \<comment> \<open>the bulk create, with the ledger before and after\<close>
  "createTransactions rt transactions skipDuplicates ledger =
     createTransactionsLoop rt skipDuplicates transactions
       (\<lparr>created = [], skipped = 0, duplicates = 0\<rparr>, ledger)"

section \<open>Accounts, uploads and the handlers\<close>

record bankAccount =
  acc_id :: string
  acc_userId :: string
  acc_currency :: string
  acc_currentBalance :: rat

datatype fileType = Pdf | Csv

datatype parseStatus = StatusPending | StatusParsing | StatusCompleted | StatusFailed

record bankStatement =
  st_id :: string
  st_userId :: string
  st_bankAccountId :: string
  st_fileName :: string
  st_fileType :: fileType
  st_filePath :: "string option"
  st_parseStatus :: parseStatus
  st_transactionCount :: nat
  st_parsedTransactions :: "parsedTransaction list"
  st_errorMessage :: "string option"

text \<open>
  The state the handlers work on: the three collections, and the stored files by path (for a
  PDF, the text that \<open>pdf-parse\<close> extracts from it). A stored candidate keeps its
  \<open>_tempId\<close>, as the handlers read it.
\<close>

record world =
  statements :: "bankStatement list"
  ledger :: "transaction list"
  accounts :: "bankAccount list"
  files :: "(string \<times> string) list"

datatype response =
    ErrorResponse nat string
  | ParsedResponse "parsedTransaction list" nat
  | UpdatedResponse parsedTransaction
  | ImportedResponse nat nat nat

definition findStatement :: "world \<Rightarrow> string \<Rightarrow> string \<Rightarrow> bankStatement option" where
  \<comment> \<open>\<open>BankStatement.findOne({ _id: statementId, userId })\<close>\<close>
  "findStatement w statementId userId =
     find (\<lambda>s. st_id s = statementId \<and> st_userId s = userId) (statements w)"

fun replaceFirst :: "('a \<Rightarrow> bool) \<Rightarrow> 'a \<Rightarrow> 'a list \<Rightarrow> 'a list" where
  \<comment> \<open>\<open>save()\<close> of a document read from a collection: the document with that \<open>_id\<close>
      is replaced, the others stay\<close>
  "replaceFirst p y [] = []"
| "replaceFirst p y (x # xs) = (if p x then y # xs else x # replaceFirst p y xs)"

definition saveStatement :: "bankStatement \<Rightarrow> world \<Rightarrow> world" where
  \<comment> \<open>\<open>statement.save()\<close>\<close>
  "saveStatement statement w =
     w\<lparr>statements := replaceFirst (\<lambda>s. st_id s = st_id statement) statement (statements w)\<rparr>"

definition getBankAccountById :: "world \<Rightarrow> string \<Rightarrow> string \<Rightarrow> bankAccount option" where
  "getBankAccountById w accountId userId =
     find (\<lambda>a. acc_id a = accountId \<and> acc_userId a = userId) (accounts w)"

definition updateBankAccountBalance :: "string \<Rightarrow> rat \<Rightarrow> world \<Rightarrow> world" where
  "updateBankAccountBalance accountId amount w =
     (case find (\<lambda>a. acc_id a = accountId) (accounts w) of
        None \<Rightarrow> w
      | Some account \<Rightarrow>
          w\<lparr>accounts :=
               replaceFirst (\<lambda>a. acc_id a = accountId)
                 (account\<lparr>acc_currentBalance := acc_currentBalance account + amount\<rparr>)
                 (accounts w)\<rparr>)"

definition candidatesValid :: "parsedTransaction list \<Rightarrow> bool" where
  \<comment> \<open>what the schema of a stored candidate requires on \<open>save()\<close>: a description that is not
      empty once trimmed, and a type of income or expense (no bound on the amount)\<close>
  "candidatesValid txs =
     list_all (\<lambda>tx. (if trim (pt_description tx) = [] then False else True)
                     \<and> (pt_type tx = Income \<or> pt_type tx = Expense)) txs"

definition storedCandidates :: "parsedTransaction list \<Rightarrow> parsedTransaction list" where
  \<comment> \<open>the setters of the schema: description and reference number are stored trimmed\<close>
  "storedCandidates txs =
     map (\<lambda>tx. tx\<lparr>pt_description := trim (pt_description tx),
                   pt_referenceNumber := map_option trim (pt_referenceNumber tx)\<rparr>) txs"

definition readAndParse :: "runtime \<Rightarrow> world \<Rightarrow> bankStatement \<Rightarrow> string \<Rightarrow> parseError + parsedTransaction list" where
  "readAndParse rt w statement path =
     (case map_of (files w) path of
        None \<Rightarrow> Inl FileUnreadable
      | Some content \<Rightarrow>
          (case st_fileType statement of
             Pdf \<Rightarrow> Inr (parsePDFStatement rt content)
           | Csv \<Rightarrow> parseCSVStatement rt content))"

definition parseStatementHandler :: "runtime \<Rightarrow> string \<Rightarrow> string \<Rightarrow> world \<Rightarrow> response \<times> world" where
  \<comment> \<open>when the save of the parsed list fails validation, the save in the \<open>catch\<close> fails
      too, and the upload is left as stored last, in status parsing\<close>
  "parseStatementHandler rt userId statementId w =
     (case findStatement w statementId userId of
        None \<Rightarrow> (ErrorResponse 404 ''Statement not found'', w)
      | Some statement \<Rightarrow>
          (case st_filePath statement of
             None \<Rightarrow> (ErrorResponse 400 ''File path not found'', w)
           | Some path \<Rightarrow>
               if path = [] then (ErrorResponse 400 ''File path not found'', w)
               else
                 let parsing = statement\<lparr>st_parseStatus := StatusParsing\<rparr>;
                     w1 = saveStatement parsing w
                 in case readAndParse rt w1 parsing path of
                      Inl e \<Rightarrow>
                        (ErrorResponse 500 (parseErrorMessage e),
                         saveStatement (parsing\<lparr>st_parseStatus := StatusFailed,
                                                 st_errorMessage := Some (parseErrorMessage e)\<rparr>) w1)
                    | Inr parsedTransactions \<Rightarrow>
                        let transactionsWithDuplicates =
                              detectDuplicates rt (ledger w1) userId parsedTransactions
                                (st_bankAccountId parsing)
                        in if candidatesValid transactionsWithDuplicates then
                             (ParsedResponse transactionsWithDuplicates
                                (length (filter pt_isDuplicate transactionsWithDuplicates)),
                              saveStatement
                                (parsing\<lparr>st_parsedTransactions := storedCandidates transactionsWithDuplicates,
                                          st_transactionCount := length transactionsWithDuplicates,
                                          st_parseStatus := StatusCompleted\<rparr>) w1)
                           else (ErrorResponse 500 ''BankStatement validation failed'', w1)))"





definition selectedById :: "string list \<Rightarrow> parsedTransaction \<Rightarrow> bool" where
  \<comment> \<open>\<open>transactionIds.includes(tx._tempId || tx._id?.toString())\<close>; a candidate has no \<open>_id\<close>\<close>
  "selectedById transactionIds tx =
     (case pt_tempId tx of
        None \<Rightarrow> False
      | Some t \<Rightarrow> (if t = [] then False else t \<in> set transactionIds))"

definition balanceChange :: "transaction list \<Rightarrow> rat" where
  \<comment> \<open>the \<open>reduce\<close> over the created transactions\<close>
  "balanceChange txs =
     foldl (\<lambda>sum tx. if tx_type tx = Income then sum + tx_amount tx
                      else if tx_type tx = Expense then sum - tx_amount tx
                      else sum) 0 txs"

definition toCreateData :: "string \<Rightarrow> bankStatement \<Rightarrow> bankAccount \<Rightarrow> parsedTransaction \<Rightarrow> createTransactionData" where
  "toCreateData userId statement bankAccount tx =
     \<lparr>ctd_userId = userId,
      ctd_accountId = st_bankAccountId statement,
      ctd_accountType = Bank,
      ctd_type = pt_type tx,
      ctd_amount = pt_amount tx,
      ctd_currency = acc_currency bankAccount,
      ctd_description = pt_description tx,
      ctd_date = pt_date tx,
      ctd_referenceNumber = pt_referenceNumber tx\<rparr>"

definition transactionsToImport :: "bankStatement \<Rightarrow> string list option \<Rightarrow> bool \<Rightarrow> parsedTransaction list" where
  "transactionsToImport statement transactionIds skipDuplicates =
     (let chosen = (case transactionIds of
                      None \<Rightarrow> st_parsedTransactions statement
                    | Some ids \<Rightarrow> if ids = [] then st_parsedTransactions statement
                                  else filter (selectedById ids) (st_parsedTransactions statement))
      in if skipDuplicates then filter (\<lambda>tx. if pt_isDuplicate tx then False else True) chosen
         else chosen)"

definition confirmParsedTransactionsHandler ::
  "runtime \<Rightarrow> string \<Rightarrow> string \<Rightarrow> string list option \<Rightarrow> bool \<Rightarrow> world \<Rightarrow> response \<times> world" where
  "confirmParsedTransactionsHandler rt userId statementId transactionIds skipDuplicates w =
     (case findStatement w statementId userId of
        None \<Rightarrow> (ErrorResponse 404 ''Statement not found'', w)
      | Some statement \<Rightarrow>
          if st_parseStatus statement = StatusCompleted then
            (case getBankAccountById w (st_bankAccountId statement) userId of
               None \<Rightarrow> (ErrorResponse 404 ''Bank account not found'', w)
             | Some bankAccount \<Rightarrow>
                 (case createTransactions rt
                         (map (toCreateData userId statement bankAccount)
                            (transactionsToImport statement transactionIds skipDuplicates))
                         skipDuplicates (ledger w) of
                    (result, ledger') \<Rightarrow>
                      (ImportedResponse (length (created result)) (skipped result) (duplicates result),
                       (if created result = [] then (\<lambda>x. x)
                        else updateBankAccountBalance (st_bankAccountId statement)
                               (balanceChange (created result)))
                         (w\<lparr>ledger := ledger'\<rparr>))))
          else (ErrorResponse 400 ''Statement parsing not completed'', w))"

section \<open>A reference runtime for closed examples\<close>

fun fractionDigits :: "int \<Rightarrow> int \<Rightarrow> nat \<Rightarrow> string" where
  "fractionDigits r d 0 = []"
| "fractionDigits r d (Suc fuel) =
     (if r = 0 then [] else showNat (nat (r * 10 div d)) @ fractionDigits (r * 10 mod d) d fuel)"

definition decimalString :: "rat \<Rightarrow> string" where
  \<comment> \<open>the exact decimal expansion, cut after 20 fractional digits: what JavaScript prints
      for a double whose shortest decimal this is\<close>
  "decimalString x =
     (case quotient_of x of
        (n, d) \<Rightarrow>
          (if n < 0 then ''-'' else [])
          @ showNat (nat (\<bar>n\<bar> div d))
          @ (if \<bar>n\<bar> mod d = 0 then [] else ''.'' @ fractionDigits (\<bar>n\<bar> mod d) d 20))"

definition isoDateOnly :: "string \<Rightarrow> date option" where
  \<comment> \<open>\<open>new Date(''YYYY-MM-DD'')\<close>, UTC midnight of that day; any other string is invalid here\<close>
  "isoDateOnly s =
     (if length s = 10 \<and> list_all isDigit (take 4 s) \<and> s ! 4 = CHR ''-''
         \<and> list_all isDigit (take 2 (drop 5 s)) \<and> s ! 7 = CHR ''-''
         \<and> list_all isDigit (drop 8 s)
      then Some (daysFromCivil (digitsVal (take 4 s)) (digitsVal (take 2 (drop 5 s)))
                   (digitsVal (drop 8 s)) * msPerDay)
      else None)"

definition refRuntime :: runtime where
  \<comment> \<open>the digest is the identity here: injective, as SHA-256 is taken to be\<close>
  "refRuntime = \<lparr>sha256Hex = (\<lambda>s. s), numberToString = decimalString,
                  dateFromString = isoDateOnly, localTZA = 0\<rparr>"

definition candidate :: "date \<Rightarrow> rat \<Rightarrow> string \<Rightarrow> txType \<Rightarrow> string \<Rightarrow> parsedTransaction" where
  \<comment> \<open>a candidate as an extractor pushes it\<close>
  "candidate d a description ty tempId =
     \<lparr>pt_date = d, pt_amount = a, pt_description = description, pt_type = ty,
      pt_referenceNumber = None, pt_balance = None, pt_isDuplicate = False,
      pt_matchingTransactionId = None, pt_tempId = Some tempId\<rparr>"

definition exAccount :: bankAccount where
  "exAccount = \<lparr>acc_id = ''acct-1'', acc_userId = ''user-1'', acc_currency = ''INR'',
                 acc_currentBalance = 5000\<rparr>"

definition exUpload :: "parseStatus \<Rightarrow> parsedTransaction list \<Rightarrow> bankStatement" where
  "exUpload status candidates =
     \<lparr>st_id = ''stmt-1'', st_userId = ''user-1'', st_bankAccountId = ''acct-1'',
      st_fileName = ''march.csv'', st_fileType = Csv,
      st_filePath = Some ''uploads/statements/march.csv'',
      st_parseStatus = status, st_transactionCount = length candidates,
      st_parsedTransactions = candidates, st_errorMessage = None\<rparr>"

definition exWorld :: "parsedTransaction list \<Rightarrow> transaction list \<Rightarrow> world" where
  \<comment> \<open>one account, one parsed upload with the given candidates, and the given ledger\<close>
  "exWorld candidates txs =
     \<lparr>statements = [exUpload StatusCompleted candidates], ledger = txs,
      accounts = [exAccount], files = []\<rparr>"

definition exUploadedWorld :: "string \<Rightarrow> world" where
  \<comment> \<open>the same upload before it is parsed, with the content of its file\<close>
  "exUploadedWorld content =
     \<lparr>statements = [exUpload StatusPending []], ledger = [],
      accounts = [exAccount], files = [(''uploads/statements/march.csv'', content)]\<rparr>"

definition salaryAndRent :: "parsedTransaction list" where
  "salaryAndRent = [candidate 1709251200000 1000 ''Salary'' Income ''temp_0'',
                    candidate 1709337600000 300 ''Rent'' Expense ''temp_1'']"

definition twoCoffees :: "parsedTransaction list" where
  \<comment> \<open>two rows of one statement with the same date, amount and description\<close>
  "twoCoffees = [candidate 1709251200000 450 ''Coffee Shop'' Expense ''temp_0'',
                 candidate 1709251200000 450 ''Coffee Shop'' Expense ''temp_1'']"

definition coffeeTransaction :: "date option \<Rightarrow> transaction" where
  \<comment> \<open>a ledger transaction of user-1 on acct-1, soft-deleted at the given time if any\<close>
  "coffeeTransaction deletedAt =
     \<lparr>tx_id = 0, tx_userId = ''user-1'', tx_accountId = ''acct-1'', tx_accountType = Bank,
      tx_type = Expense, tx_amount = 450, tx_currency = ''INR'', tx_description = ''Coffee Shop'',
      tx_date = 1709251200000, tx_status = Completed, tx_referenceNumber = None,
      tx_duplicateCheckHash = ''2024-03-01|450|coffee shop|acct-1'', tx_deletedAt = deletedAt\<rparr>"


section \<open>Notions the properties are stated with\<close>



definition fingerprintOf :: "runtime \<Rightarrow> createTransactionData \<Rightarrow> string" where
  "fingerprintOf rt txData =
     generateDuplicateHash rt (ctd_date txData) (ctd_amount txData) (ctd_description txData)
       (ctd_accountId txData)"

definition inLedger :: "runtime \<Rightarrow> transaction list \<Rightarrow> createTransactionData \<Rightarrow> bool" where
  \<comment> \<open>a transaction with the fingerprint of these data, not deleted, exists for their owner\<close>
  "inLedger rt txs txData =
     (case findOneActiveByHash txs (ctd_userId txData) (fingerprintOf rt txData) of
        None \<Rightarrow> False | Some existing \<Rightarrow> True)"

definition accepted :: "createTransactionData \<Rightarrow> bool" where
  \<comment> \<open>the data pass the validation of the transaction schema\<close>
  "accepted txData =
     (if ctd_amount txData < 0 \<or> trim (ctd_description txData) = [] \<or> ctd_currency txData = []
      then False else True)"



section \<open>Properties\<close>

subsection \<open>Fingerprint stability\<close>

text \<open>
  C4: the fingerprint does not change with the letter case of the description or with
  white space around it: two descriptions with the same lower-cased trimmed text give the
  same fingerprint for the same date, amount and account, and so do
  \<open>''  Coffee Shop  ''\<close> and \<open>''coffee shop''\<close>.
\<close>

theorem generateDuplicateHash_case_whitespace:
  "(toLowerCase (trim s1) = toLowerCase (trim s2) \<longrightarrow>
      generateDuplicateHash rt d a s1 acct = generateDuplicateHash rt d a s2 acct)
   \<and> generateDuplicateHash rt d a ''  Coffee Shop  '' acct
       = generateDuplicateHash rt d a ''coffee shop'' acct"
proof -
  have "toLowerCase (trim ''  Coffee Shop  '') = toLowerCase (trim ''coffee shop'')"
    by code_simp
  then show ?thesis
    by (simp add: generateDuplicateHash_def)
qed

theorem generateDuplicateHash_case_whitespace_witness:
  "toLowerCase (trim ''COFFEE shop '') = toLowerCase (trim '' Coffee Shop'')
   \<and> generateDuplicateHash refRuntime 1709251200000 450 ''COFFEE shop '' ''acct-1''
       = generateDuplicateHash refRuntime 1709251200000 450 '' Coffee Shop'' ''acct-1''
   \<and> generateDuplicateHash refRuntime 1709251200000 450 ''coffee shop'' ''acct-1''
       = ''2024-03-01|450|coffee shop|acct-1''"
proof -
  have eq: "toLowerCase (trim ''COFFEE shop '') = toLowerCase (trim '' Coffee Shop'')"
    by code_simp
  have val: "generateDuplicateHash refRuntime 1709251200000 450 ''coffee shop'' ''acct-1''
             = ''2024-03-01|450|coffee shop|acct-1''"
    by code_simp
  from generateDuplicateHash_case_whitespace
         [of "''COFFEE shop ''" "'' Coffee Shop''" refRuntime 1709251200000 450 "''acct-1''"]
       eq val
  show ?thesis by blast
qed

subsection \<open>The date normalizer on year-first tokens\<close>

text \<open>
  C5 (the code departs from it): the token \<open>2024-03-01\<close> is not read as 1 March 2024.
  The first format is tried unanchored and matches \<open>24-03-01\<close> inside the token, so the
  normalizer builds the date from day 24, month 3 and year 01, which is 24 March 2001.
\<close>

theorem parseDate_year_first_token:
  "parseDate rt ''2024-03-01'' = Some (newDate rt 2001 2 24)
   \<and> getLocalDate rt (newDate rt 2001 2 24) = (2001, 3, 24)
   \<and> getLocalDate rt (newDate rt 2024 2 1) = (2024, 3, 1)"
proof -
  have p: "parseDate rt ''2024-03-01'' = Some (newDate rt 2001 2 24)"
    by code_simp
  have a: "civilFromDays (makeDay 2001 2 24) = (2001, 3, 24)"
    by code_simp
  have b: "civilFromDays (makeDay 2024 2 1) = (2024, 3, 1)"
    by code_simp
  show ?thesis
    using p a b by (simp add: getLocalDate_def newDate_def msPerDay_def)
qed

subsection \<open>A tabular document of one line\<close>

lemma parseCSVStatement_short:
  "length (splitOn CHR 0x0A (trim content)) < 2 \<Longrightarrow> parseCSVStatement rt content = Inl CsvEmptyOrInvalid"
  by (simp add: parseCSVStatement_def)

lemma replaceFirst_twice: "p a \<Longrightarrow> replaceFirst p b (replaceFirst p a xs) = replaceFirst p b xs"
  by (induction xs) auto

lemma saveStatement_twice:
  "st_id b = st_id a \<Longrightarrow> saveStatement b (saveStatement a w) = saveStatement b w"
  by (simp add: saveStatement_def replaceFirst_twice)

lemma files_saveStatement: "files (saveStatement a w) = files w"
  by (simp add: saveStatement_def)

text \<open>
  C10: when the trimmed content of a tabular document has fewer than two lines, the
  extractor throws \<open>CSV file is empty or invalid\<close> and returns no candidate list; the
  parse handler then answers 500 and marks the upload failed with that message, whatever
  the single line holds.
\<close>

theorem csv_single_line_fails:
  assumes "findStatement w statementId userId = Some statement"
    and "st_fileType statement = Csv"
    and "st_filePath statement = Some path" and "path \<noteq> []"
    and "map_of (files w) path = Some content"
    and "length (splitOn CHR 0x0A (trim content)) < 2"
  shows "parseCSVStatement rt content = Inl CsvEmptyOrInvalid
   \<and> parseStatementHandler rt userId statementId w =
       (ErrorResponse 500 ''CSV file is empty or invalid'',
        saveStatement (statement\<lparr>st_parseStatus := StatusFailed,
                                 st_errorMessage := Some ''CSV file is empty or invalid''\<rparr>) w)"
proof -
  have p: "parseCSVStatement rt content = Inl CsvEmptyOrInvalid"
    using assms(6) by (rule parseCSVStatement_short)
  have r: "readAndParse rt (saveStatement (statement\<lparr>st_parseStatus := StatusParsing\<rparr>) w)
             (statement\<lparr>st_parseStatus := StatusParsing\<rparr>) path = Inl CsvEmptyOrInvalid"
    using assms(2,5) p by (simp add: readAndParse_def files_saveStatement)
  show ?thesis
    using assms(1,3,4) p r
    by (simp add: parseStatementHandler_def Let_def parseErrorMessage_def saveStatement_twice)
qed

text \<open>
  The upload whose file is the single well-formed row
  \<open>01-03-2024,-450.00,Electricity Bill\<close> ends failed, with no candidate.
\<close>

theorem csv_single_line_fails_witness:
  "findStatement (exUploadedWorld ''01-03-2024,-450.00,Electricity Bill'') ''stmt-1'' ''user-1''
     = Some (exUpload StatusPending [])
   \<and> length (splitOn CHR 0x0A (trim ''01-03-2024,-450.00,Electricity Bill'')) = 1
   \<and> parseCSVStatement refRuntime ''01-03-2024,-450.00,Electricity Bill'' = Inl CsvEmptyOrInvalid
   \<and> fst (parseStatementHandler refRuntime ''user-1'' ''stmt-1''
            (exUploadedWorld ''01-03-2024,-450.00,Electricity Bill''))
       = ErrorResponse 500 ''CSV file is empty or invalid''
   \<and> statements (snd (parseStatementHandler refRuntime ''user-1'' ''stmt-1''
                        (exUploadedWorld ''01-03-2024,-450.00,Electricity Bill'')))
       = [(exUpload StatusFailed [])\<lparr>st_errorMessage := Some ''CSV file is empty or invalid''\<rparr>]"
proof -
  let ?w = "exUploadedWorld ''01-03-2024,-450.00,Electricity Bill''"
  have f: "findStatement ?w ''stmt-1'' ''user-1'' = Some (exUpload StatusPending [])"
    by code_simp
  have ty: "st_fileType (exUpload StatusPending []) = Csv"
    by code_simp
  have pa: "st_filePath (exUpload StatusPending []) = Some ''uploads/statements/march.csv''"
    by code_simp
  have fi: "map_of (files ?w) ''uploads/statements/march.csv''
            = Some ''01-03-2024,-450.00,Electricity Bill''"
    by code_simp
  have len: "length (splitOn CHR 0x0A (trim ''01-03-2024,-450.00,Electricity Bill'')) = 1"
    by code_simp
  have st: "statements (saveStatement ((exUpload StatusPending [])\<lparr>st_parseStatus := StatusFailed,
                                 st_errorMessage := Some ''CSV file is empty or invalid''\<rparr>) ?w)
            = [(exUpload StatusFailed [])\<lparr>st_errorMessage := Some ''CSV file is empty or invalid''\<rparr>]"
    by code_simp
  from csv_single_line_fails [OF f ty pa _ fi, of refRuntime] len st f
  show ?thesis by simp
qed

subsection \<open>The sign of a tabular amount\<close>

text \<open>
  C6: a data row with at least three fields, whose date field parses and whose amount field
  parses to a negative number, read without a type column, yields a candidate with the
  absolute value of that number as amount and with direction expense; the row
  \<open>01-03-2024,-450.00,Electricity Bill\<close> read by position yields amount 450 and expense.
\<close>

theorem csvRow_negative_amount:
  "(3 \<le> length (parseCSVLine (trim line)) \<and> typeCol < 0
     \<and> column (parseCSVLine (trim line)) (if 0 \<le> dateCol then dateCol else 0) = Some dateStr
     \<and> parseDate rt dateStr = Some dt
     \<and> column (parseCSVLine (trim line)) (if 0 \<le> amountCol then amountCol else 1) = Some amountStr
     \<and> parseFloat (numericOnly amountStr) = Finite a \<and> a < 0
     \<and> column (parseCSVLine (trim line)) (if 0 \<le> descriptionCol then descriptionCol else 2) = Some descStr
    \<longrightarrow> (\<exists>c. csvRow rt dateCol amountCol descriptionCol typeCol balanceCol i line = Some c
              \<and> pt_amount c = \<bar>a\<bar> \<and> pt_amount c = - a \<and> pt_type c = Expense))
   \<and> map_option (\<lambda>c. (pt_amount c, pt_type c, pt_description c))
        (csvRow rt (- 1) (- 1) (- 1) (- 1) (- 1) i ''01-03-2024,-450.00,Electricity Bill'')
       = Some (450, Expense, ''Electricity Bill'')"
proof -
  have ne: "3 \<le> length (parseCSVLine (trim line)) \<Longrightarrow> trim line \<noteq> []"
    by (auto simp: parseCSVLine_def)
  have general: "3 \<le> length (parseCSVLine (trim line)) \<and> typeCol < 0
     \<and> column (parseCSVLine (trim line)) (if 0 \<le> dateCol then dateCol else 0) = Some dateStr
     \<and> parseDate rt dateStr = Some dt
     \<and> column (parseCSVLine (trim line)) (if 0 \<le> amountCol then amountCol else 1) = Some amountStr
     \<and> parseFloat (numericOnly amountStr) = Finite a \<and> a < 0
     \<and> column (parseCSVLine (trim line)) (if 0 \<le> descriptionCol then descriptionCol else 2) = Some descStr
    \<longrightarrow> (\<exists>c. csvRow rt dateCol amountCol descriptionCol typeCol balanceCol i line = Some c
              \<and> pt_amount c = \<bar>a\<bar> \<and> pt_amount c = - a \<and> pt_type c = Expense)"
    using ne by (auto simp: csvRow_def Let_def)
  have cols: "parseCSVLine (trim ''01-03-2024,-450.00,Electricity Bill'')
              = [''01-03-2024'', ''-450.00'', ''Electricity Bill'']"
    by code_simp
  have d: "parseDate rt ''01-03-2024'' = Some (newDate rt 1 2 2024)"
    by code_simp
  have t: "trim ''01-03-2024,-450.00,Electricity Bill'' \<noteq> []"
    by code_simp
  have a: "parseFloat (numericOnly ''-450.00'') = Finite (- 450)"
    by code_simp
  have ds: "trim ''Electricity Bill'' = ''Electricity Bill''"
    by code_simp
  have inst: "map_option (\<lambda>c. (pt_amount c, pt_type c, pt_description c))
        (csvRow rt (- 1) (- 1) (- 1) (- 1) (- 1) i ''01-03-2024,-450.00,Electricity Bill'')
       = Some (450, Expense, ''Electricity Bill'')"
    using cols d t a ds by (simp add: csvRow_def Let_def column_def)
  show ?thesis using general inst by blast
qed

text \<open>
  A row under the header \<open>Date,Narration,Amount\<close> (date in column 0, amount in column 2,
  description in column 1, no type column), as the second line of a file.
\<close>

theorem csvRow_negative_amount_witness:
  "parseCSVLine (trim ''2024-03-24,Grocery Store,-120.50'') = [''2024-03-24'', ''Grocery Store'', ''-120.50'']
   \<and> parseDate refRuntime ''2024-03-24'' = Some 1711238400000
   \<and> parseFloat (numericOnly ''-120.50'') = Finite (- (241 / 2))
   \<and> (\<exists>c. csvRow refRuntime 0 2 1 (- 1) (- 1) 1 ''2024-03-24,Grocery Store,-120.50'' = Some c
          \<and> pt_amount c = 241 / 2 \<and> pt_type c = Expense)"
proof -
  have cols: "parseCSVLine (trim ''2024-03-24,Grocery Store,-120.50'')
              = [''2024-03-24'', ''Grocery Store'', ''-120.50'']"
    by code_simp
  have d: "parseDate refRuntime ''2024-03-24'' = Some 1711238400000"
    by code_simp
  have a: "parseFloat (numericOnly ''-120.50'') = Finite (- (241 / 2))"
    by code_simp
  from csvRow_negative_amount
         [of "''2024-03-24,Grocery Store,-120.50''" "- 1" 0 "''2024-03-24''" refRuntime 1711238400000
             2 "''-120.50''" "- (241 / 2)" 1 "''Grocery Store''" "- 1" 1]
       cols d a
  show ?thesis by (simp add: column_def)
qed

subsection \<open>The balance after a confirm call\<close>

lemma createTransactionsLoop_appends:
  "createTransactionsLoop rt skip txs (res, L) = (res', L')
   \<Longrightarrow> \<exists>cs. L' = L @ cs \<and> created res' = created res @ cs"
proof (induction txs arbitrary: res L)
  case Nil
  then show ?case by simp
next
  case (Cons tx txs)
  then show ?case
    by (fastforce simp: Let_def split: if_splits option.splits sum.splits)
qed






lemma find_holds: "find p xs = Some x \<Longrightarrow> p x"
  by (induction xs) (auto split: if_splits)






subsection \<open>The duplicate check and soft-deleted transactions\<close>

text \<open>
  C2 (the code departs from it): \<open>checkDuplicates\<close> looks a fingerprint up without the
  filter on \<open>deletedAt\<close> that every other lookup of the service has. With a ledger whose
  only transaction of that fingerprint is soft-deleted, it reports that transaction as the
  match, and the candidate is flagged as a duplicate, although no transaction that is not
  deleted has the fingerprint.
\<close>

theorem checkDuplicates_matches_soft_deleted:
  "checkDuplicates refRuntime [coffeeTransaction (Some 1709500000000)] ''user-1''
     [\<lparr>dq_date = 1709251200000, dq_amount = 450, dq_description = ''Coffee Shop'',
       dq_accountId = ''acct-1''\<rparr>]
     ''2024-03-01|450|coffee shop|acct-1''
   = Some (Some (coffeeTransaction (Some 1709500000000)))
   \<and> findOneActiveByHash [coffeeTransaction (Some 1709500000000)] ''user-1''
        ''2024-03-01|450|coffee shop|acct-1'' = None
   \<and> map pt_isDuplicate
        (detectDuplicates refRuntime [coffeeTransaction (Some 1709500000000)] ''user-1''
           [candidate 1709251200000 450 ''Coffee Shop'' Expense ''temp_0''] ''acct-1'') = [True]"
  by code_simp

subsection \<open>Free-text lines with a trailing date\<close>

text \<open>
  C8 (the code departs from it): on \<open>Coffee Shop 450.00 01-03-2024\<close> only the third
  pattern matches, with the date token as its third group. That group starts with digits,
  so \<open>parseFloat\<close> of it is a number and the extractor takes the branch that reads the
  date from the first group: it parses \<open>Coffee Shop\<close> as the date and takes the date
  token as the description. No candidate with the trailing date and the leading text is
  emitted; with a runtime whose date parser rejects \<open>Coffee Shop\<close>, none at all.
\<close>

theorem parsePDFStatement_trailing_date:
  "parsePDFStatement rt ''Coffee Shop 450.00 01-03-2024'' =
     (case dateFromString rt ''Coffee Shop'' of
        None \<Rightarrow> []
      | Some d \<Rightarrow> [candidate d 450 ''01-03-2024'' Income ''temp_0''])
   \<and> parsePDFStatement refRuntime ''Coffee Shop 450.00 01-03-2024'' = []"
proof -
  let ?line = "''Coffee Shop 450.00 01-03-2024''"
  define m :: captures where
    "m = [(0, ''Coffee Shop 450.00 01-03-2024''), (3, ''01-03-2024''),
          (2, ''450.00''), (1, ''Coffee Shop'')]"
  have lines: "splitOn CHR 0x0A ?line = [?line]" "trim ?line = ?line"
    by code_simp+
  define p1 where "p1 = pdfPatterns ! 0"
  define p2 where "p2 = pdfPatterns ! 1"
  define p3 where "p3 = pdfPatterns ! 2"
  have m1: "regexMatch p1 ?line = None"
    unfolding p1_def by code_simp
  have m2: "regexMatch p2 ?line = None"
    unfolding p2_def by code_simp
  have m3: "regexMatch p3 ?line = Some m"
    unfolding p3_def m_def by code_simp
  have pats: "pdfPatterns = [p1, p2, p3]"
    by (simp add: pdfPatterns_def p1_def p2_def p3_def)
  have g: "grp m 1 = ''Coffee Shop''" "grp m 2 = ''450.00''" "grp m 3 = ''01-03-2024''"
    unfolding m_def by code_simp+
  have third: "isNaN (parseFloat ''01-03-2024'') = False"
    by code_simp
  have amount: "parseFloat ''450.00'' = Finite 450"
    by code_simp
  have nofmt: "firstMatch dateFormats ''Coffee Shop'' = None"
    by code_simp
  have desc: "trim ''01-03-2024'' = ''01-03-2024''"
    by code_simp
  have tid: "showNat 0 = ''0''"
    by code_simp
  have cand: "candidateOfMatch rt m 0 =
               (case dateFromString rt ''Coffee Shop'' of
                  None \<Rightarrow> None
                | Some d \<Rightarrow> Some (candidate d 450 ''01-03-2024'' Income ''temp_0''))"
    using g third amount nofmt desc tid
    by (simp add: candidateOfMatch_def parseDate_def candidate_def split: option.splits)
  have tried: "tryPatterns rt pdfPatterns ?line 0 =
               (case dateFromString rt ''Coffee Shop'' of
                  None \<Rightarrow> None
                | Some d \<Rightarrow> Some (candidate d 450 ''01-03-2024'' Income ''temp_0''))"
    by (simp add: pats m1 m2 m3 cand del: regexMatch.simps split: option.splits)
  have general: "parsePDFStatement rt ?line =
     (case dateFromString rt ''Coffee Shop'' of
        None \<Rightarrow> []
      | Some d \<Rightarrow> [candidate d 450 ''01-03-2024'' Income ''temp_0''])"
    using lines tried by (simp add: parsePDFStatement_def split: option.splits)
  have "parsePDFStatement refRuntime ?line = []"
    by code_simp
  with general show ?thesis by simp
qed

subsection \<open>The bulk create and the fingerprints of the ledger\<close>

lemma find_append_cases:
  "find p (xs @ ys) = (case find p xs of None \<Rightarrow> find p ys | Some x \<Rightarrow> Some x)"
  by (induction xs) auto

lemma findOneActiveByHash_append:
  "findOneActiveByHash (L @ cs) u h =
     (case findOneActiveByHash L u h of None \<Rightarrow> findOneActiveByHash cs u h | Some t \<Rightarrow> Some t)"
  by (simp add: findOneActiveByHash_def find_append_cases split: option.splits)

lemma saveNewTransaction_Inr:
  "saveNewTransaction L d h = Inr saved \<Longrightarrow>
     accepted d \<and> tx_userId saved = ctd_userId d \<and> tx_duplicateCheckHash saved = h
     \<and> tx_deletedAt saved = None \<and> tx_type saved = ctd_type d \<and> tx_amount saved = ctd_amount d"
  by (auto simp: saveNewTransaction_def accepted_def split: if_splits)

lemma saveNewTransaction_Inl:
  "saveNewTransaction L d h = Inl message \<Longrightarrow>
     \<not> accepted d \<and> message = ''Transaction validation failed''"
  by (auto simp: saveNewTransaction_def accepted_def split: if_splits)

lemma saveNewTransaction_accepted:
  "accepted d \<Longrightarrow> \<exists>saved. saveNewTransaction L d h = Inr saved"
  by (auto simp: saveNewTransaction_def accepted_def split: if_splits)

lemma findOneActive_single:
  "tx_userId t = u \<Longrightarrow> tx_duplicateCheckHash t = h \<Longrightarrow> tx_deletedAt t = None
   \<Longrightarrow> findOneActiveByHash [t] u h = Some t"
  by (simp add: findOneActiveByHash_def)






subsection \<open>Confirming an upload twice\<close>

lemma inLedger_append: "inLedger rt L d \<Longrightarrow> inLedger rt (L @ cs) d"
  by (auto simp: inLedger_def findOneActiveByHash_append split: option.splits)

lemma inLedger_saved:
  "saveNewTransaction L d (fingerprintOf rt d) = Inr saved \<Longrightarrow> inLedger rt (L @ [saved]) d"
proof -
  assume a: "saveNewTransaction L d (fingerprintOf rt d) = Inr saved"
  then have "findOneActiveByHash [saved] (ctd_userId d) (fingerprintOf rt d) = Some saved"
    by (intro findOneActive_single) (auto dest: saveNewTransaction_Inr)
  then show ?thesis
    by (auto simp: inLedger_def findOneActiveByHash_append split: option.splits)
qed

lemma loop_step_skip:
  "createTransactionsLoop rt True (d # txs) (res, L) =
     (if inLedger rt L d
      then createTransactionsLoop rt True txs (res\<lparr>duplicates := duplicates res + 1\<rparr>, L)
      else case saveNewTransaction L d (fingerprintOf rt d) of
             Inr saved \<Rightarrow> createTransactionsLoop rt True txs
                            (res\<lparr>created := created res @ [saved]\<rparr>, L @ [saved])
           | Inl message \<Rightarrow> createTransactionsLoop rt True txs (res\<lparr>skipped := skipped res + 1\<rparr>, L))"
  by (auto simp: Let_def inLedger_def fingerprintOf_def dest: saveNewTransaction_Inl
           split: option.splits sum.splits)

lemma first_run:
  "createTransactionsLoop rt True txs (res, L) = (res', L') \<Longrightarrow>
     list_all (\<lambda>d. inLedger rt L' d \<or> \<not> accepted d) txs
     \<and> length (created res') + duplicates res' + skipped res'
         = length (created res) + duplicates res + skipped res + length txs
     \<and> length (created res') + duplicates res'
         \<le> length (created res) + duplicates res + length (filter (inLedger rt L') txs)"
proof (induction txs arbitrary: res L)
  case Nil
  then show ?case by simp
next
  case (Cons d txs)
  show ?case
  proof (cases "inLedger rt L d")
    case True
    with Cons.prems
    have run: "createTransactionsLoop rt True txs (res\<lparr>duplicates := duplicates res + 1\<rparr>, L) = (res', L')"
      by (simp add: loop_step_skip del: createTransactionsLoop.simps)
    from createTransactionsLoop_appends [OF run] True have "inLedger rt L' d"
      by (auto intro: inLedger_append)
    with Cons.IH [OF run] show ?thesis by simp
  next
    case False
    show ?thesis
    proof (cases "saveNewTransaction L d (fingerprintOf rt d)")
      case (Inl message)
      with Cons.prems False
      have run: "createTransactionsLoop rt True txs (res\<lparr>skipped := skipped res + 1\<rparr>, L) = (res', L')"
        by (simp add: loop_step_skip del: createTransactionsLoop.simps)
      from Inl have "\<not> accepted d"
        by (auto dest: saveNewTransaction_Inl)
      with Cons.IH [OF run] show ?thesis by simp
    next
      case (Inr saved)
      with Cons.prems False
      have run: "createTransactionsLoop rt True txs (res\<lparr>created := created res @ [saved]\<rparr>, L @ [saved]) = (res', L')"
        by (simp add: loop_step_skip del: createTransactionsLoop.simps)
      from createTransactionsLoop_appends [OF run] obtain cs where "L' = (L @ [saved]) @ cs"
        by blast
      with inLedger_append [OF inLedger_saved [OF Inr], of cs] have "inLedger rt L' d"
        by simp
      with Cons.IH [OF run] show ?thesis by simp
    qed
  qed
qed

lemma second_run:
  "list_all (\<lambda>d. inLedger rt L d \<or> \<not> accepted d) txs \<Longrightarrow>
     createTransactionsLoop rt True txs (res, L) =
       (res\<lparr>duplicates := duplicates res + length (filter (inLedger rt L) txs),
             skipped := skipped res + length (filter (\<lambda>d. \<not> inLedger rt L d) txs)\<rparr>, L)"
proof (induction txs arbitrary: res)
  case Nil
  then show ?case by simp
next
  case (Cons d txs)
  then have IH: "\<And>res. createTransactionsLoop rt True txs (res, L) =
       (res\<lparr>duplicates := duplicates res + length (filter (inLedger rt L) txs),
             skipped := skipped res + length (filter (\<lambda>d. \<not> inLedger rt L d) txs)\<rparr>, L)"
    by simp
  show ?case
  proof (cases "inLedger rt L d")
    case True
    then show ?thesis
      by (simp add: loop_step_skip IH del: createTransactionsLoop.simps)
  next
    case False
    with Cons.prems have "\<not> accepted d" by simp
    then obtain message where "saveNewTransaction L d (fingerprintOf rt d) = Inl message"
      by (cases "saveNewTransaction L d (fingerprintOf rt d)") (auto dest: saveNewTransaction_Inr)
    with False show ?thesis
      by (simp add: loop_step_skip IH del: createTransactionsLoop.simps)
  qed
qed


lemma find_replaceFirst_keeps:
  "find p xs = Some x \<Longrightarrow> q y = q x \<Longrightarrow> g y = g x
   \<Longrightarrow> map_option g (find q (replaceFirst p y xs)) = map_option g (find q xs)"
  by (induction xs) (auto split: if_splits)

lemma currency_after_update:
  "map_option acc_currency (getBankAccountById (updateBankAccountBalance k amount w) accountId userId)
   = map_option acc_currency (getBankAccountById w accountId userId)"
proof (cases "find (\<lambda>a. acc_id a = k) (accounts w)")
  case None
  then show ?thesis by (simp add: updateBankAccountBalance_def)
next
  case (Some account)
  then have "acc_id account = k"
    by (auto dest: find_holds)
  with Some show ?thesis
    by (simp add: updateBankAccountBalance_def getBankAccountById_def find_replaceFirst_keeps)
qed

lemma statements_after_update: "statements (updateBankAccountBalance k amount w) = statements w"
  by (simp add: updateBankAccountBalance_def split: option.splits)

lemma ledger_after_update: "ledger (updateBankAccountBalance k amount w) = ledger w"
  by (simp add: updateBankAccountBalance_def split: option.splits)

lemma toCreateData_currency:
  "acc_currency a = acc_currency b \<Longrightarrow> toCreateData u st a = toCreateData u st b"
  by (rule ext) (simp add: toCreateData_def)

text \<open>
  C1, as the code has it: when a confirm call with \<open>skipDuplicates\<close> true answers
  created = n, skipped = s, duplicates = d, the same call repeated creates nothing (the
  ledger, the balances and the upload are as the first call left them) and answers
  created = 0; its duplicates count is at least n + d, it is n + d when the first call
  skipped no row, and its duplicates and skipped rows together are the n + d + s rows of
  the selection.
\<close>

theorem confirm_twice:
  assumes first: "confirmParsedTransactionsHandler rt userId statementId transactionIds True w
                    = (ImportedResponse n s d, w1)"
  shows "\<exists>s2 d2. confirmParsedTransactionsHandler rt userId statementId transactionIds True w1
                    = (ImportedResponse 0 s2 d2, w1)
               \<and> n + d \<le> d2 \<and> d2 + s2 = n + d + s \<and> (s = 0 \<longrightarrow> d2 = n + d)"
proof -
  from first obtain statement where st: "findStatement w statementId userId = Some statement"
    by (cases "findStatement w statementId userId") (auto simp: confirmParsedTransactionsHandler_def)
  from first st have completed: "st_parseStatus statement = StatusCompleted"
    by (auto simp: confirmParsedTransactionsHandler_def split: if_splits)
  from first st completed obtain bankAccount
    where acc: "getBankAccountById w (st_bankAccountId statement) userId = Some bankAccount"
    by (cases "getBankAccountById w (st_bankAccountId statement) userId")
       (auto simp: confirmParsedTransactionsHandler_def)
  define rows where "rows = map (toCreateData userId statement bankAccount)
                                (transactionsToImport statement transactionIds True)"
  define init where "init = \<lparr>created = [], skipped = 0, duplicates = 0\<rparr>"
  obtain result L' where run: "createTransactionsLoop rt True rows (init, ledger w) = (result, L')"
    by (cases "createTransactionsLoop rt True rows (init, ledger w)") auto
  from first st completed acc run
  have n: "n = length (created result)" and s: "s = skipped result" and d: "d = duplicates result"
    and w1: "w1 = (if created result = [] then (\<lambda>x. x)
                   else updateBankAccountBalance (st_bankAccountId statement)
                          (balanceChange (created result))) (w\<lparr>ledger := L'\<rparr>)"
    by (auto simp: confirmParsedTransactionsHandler_def createTransactions_def rows_def init_def)
  have st1: "findStatement w1 statementId userId = Some statement"
    using st w1 by (simp add: findStatement_def statements_after_update)
  have led1: "ledger w1 = L'"
    using w1 by (simp add: ledger_after_update)
  have "map_option acc_currency (getBankAccountById w1 (st_bankAccountId statement) userId)
        = map_option acc_currency (getBankAccountById (w\<lparr>ledger := L'\<rparr>) (st_bankAccountId statement) userId)"
    using w1 by (simp add: currency_after_update)
  also have "\<dots> = Some (acc_currency bankAccount)"
    using acc by (simp add: getBankAccountById_def)
  finally obtain bankAccount1
    where acc1: "getBankAccountById w1 (st_bankAccountId statement) userId = Some bankAccount1"
      and cur: "acc_currency bankAccount1 = acc_currency bankAccount"
    by auto
  have rows1: "map (toCreateData userId statement bankAccount1)
                 (transactionsToImport statement transactionIds True) = rows"
    using toCreateData_currency [OF cur] by (simp add: rows_def)
  from first_run [OF run]
  have all: "list_all (\<lambda>d. inLedger rt L' d \<or> \<not> accepted d) rows"
    and total: "n + d + s = length rows"
    and least: "n + d \<le> length (filter (inLedger rt L') rows)"
    by (simp_all add: n s d init_def)
  define d2 where "d2 = length (filter (inLedger rt L') rows)"
  define s2 where "s2 = length (filter (\<lambda>d. \<not> inLedger rt L' d) rows)"
  have again: "createTransactionsLoop rt True rows (init, L')
               = (init\<lparr>duplicates := d2, skipped := s2\<rparr>, L')"
    using second_run [OF all, of init] by (simp add: init_def d2_def s2_def)
  have w1_same: "w1\<lparr>ledger := L'\<rparr> = w1"
    using led1 by simp
  have second: "confirmParsedTransactionsHandler rt userId statementId transactionIds True w1
                = (ImportedResponse 0 s2 d2, w1)"
    using st1 completed acc1 rows1 again led1 w1_same
    by (simp add: confirmParsedTransactionsHandler_def createTransactions_def init_def)
  have split: "d2 + s2 = length rows"
    unfolding d2_def s2_def by (rule sum_length_filter_compl)
  show ?thesis
    using second least total split by (intro exI [of _ s2] exI [of _ d2]) (auto simp: d2_def)
qed

text \<open>
  Two different candidates against an empty ledger: the first call creates both, the
  second creates none and counts both as duplicates.
\<close>

theorem confirm_twice_witness:
  "fst (confirmParsedTransactionsHandler refRuntime ''user-1'' ''stmt-1'' None True
          (exWorld salaryAndRent [])) = ImportedResponse 2 0 0
   \<and> confirmParsedTransactionsHandler refRuntime ''user-1'' ''stmt-1'' None True
        (snd (confirmParsedTransactionsHandler refRuntime ''user-1'' ''stmt-1'' None True
                (exWorld salaryAndRent [])))
       = (ImportedResponse 0 0 2,
          snd (confirmParsedTransactionsHandler refRuntime ''user-1'' ''stmt-1'' None True
                 (exWorld salaryAndRent [])))"
proof -
  let ?r = "confirmParsedTransactionsHandler refRuntime ''user-1'' ''stmt-1'' None True
              (exWorld salaryAndRent [])"
  have r: "fst ?r = ImportedResponse 2 0 0"
    by code_simp
  then have call: "?r = (ImportedResponse 2 0 0, snd ?r)"
    by (metis prod.collapse)
  from confirm_twice [OF call] obtain s2 d2
    where second: "confirmParsedTransactionsHandler refRuntime ''user-1'' ''stmt-1'' None True (snd ?r)
                   = (ImportedResponse 0 s2 d2, snd ?r)"
      and "2 + 0 \<le> d2" "d2 + s2 = 2 + 0 + 0"
    by blast
  then have "d2 = 2" "s2 = 0"
    by simp_all
  with second r show ?thesis by simp
qed

text \<open>
  C1 as stated fails when the selection holds two candidates with one fingerprint, as two
  equal rows of a statement give: the first call creates one transaction and counts the
  other row as a duplicate, and the second call reports two duplicates, not one.
\<close>

theorem confirm_twice_counterexample:
  "fst (confirmParsedTransactionsHandler refRuntime ''user-1'' ''stmt-1'' None True
          (exWorld twoCoffees [])) = ImportedResponse 1 0 1
   \<and> fst (confirmParsedTransactionsHandler refRuntime ''user-1'' ''stmt-1'' None True
            (snd (confirmParsedTransactionsHandler refRuntime ''user-1'' ''stmt-1'' None True
                    (exWorld twoCoffees [])))) = ImportedResponse 0 0 2"
  by code_simp

subsection \<open>The amounts of the candidates\<close>





















end
